theory Spec2Isabelle
  imports Main
begin

section \<open>The values the component computes with\<close>

text \<open>
  \<^verbatim>\<open>ActiveLink.tsx\<close> builds one class string with a template literal. The values
  that can reach the two interpolation holes are strings (a class name of the CSS
  module, the pathname), the boolean produced by \<^verbatim>\<open>===\<close>, and \<^verbatim>\<open>undefined\<close>
  (a key the CSS module does not export). Strings are compared as sequences of code
  units, so a character list is enough.
\<close>

datatype js_value = Undefined | Boolean bool | String string

text \<open>\<^verbatim>\<open>a === b\<close>: same type and same value, no coercion.\<close>

fun strict_equals :: "js_value \<Rightarrow> js_value \<Rightarrow> bool" where
  "strict_equals Undefined Undefined = True"
| "strict_equals (Boolean a) (Boolean b) = (a = b)"
| "strict_equals (String s) (String t) = (s = t)"
| "strict_equals _ _ = False"

text \<open>Truthiness: \<^verbatim>\<open>undefined\<close>, \<^verbatim>\<open>false\<close> and the empty string are falsy.\<close>

fun ToBoolean :: "js_value \<Rightarrow> bool" where
  "ToBoolean Undefined = False"
| "ToBoolean (Boolean b) = b"
| "ToBoolean (String s) = (s \<noteq> [])"

text \<open>\<^verbatim>\<open>a && b\<close> returns \<^verbatim>\<open>a\<close> itself when it is falsy, and \<^verbatim>\<open>b\<close> otherwise.\<close>

definition logical_and :: "js_value \<Rightarrow> js_value \<Rightarrow> js_value" where
  "logical_and a b = (if ToBoolean a then b else a)"

text \<open>What a template literal writes for the value in a hole.\<close>

fun ToString :: "js_value \<Rightarrow> string" where
  "ToString Undefined = ''undefined''"
| "ToString (Boolean True) = ''true''"
| "ToString (Boolean False) = ''false''"
| "ToString (String s) = s"

section \<open>The CSS module and the host's router\<close>

text \<open>
  \<^verbatim>\<open>import style from "./ActiveLink.module.css"\<close>: an object from the class names
  written in the style sheet to the generated class names. The style sheet is not
  part of the sources read here, so the object is a parameter of the component.
  Reading a key it does not have gives \<^verbatim>\<open>undefined\<close>.
\<close>

type_synonym css_module = "string \<rightharpoonup> string"

definition css_class :: "css_module \<Rightarrow> string \<Rightarrow> js_value" where
  "css_class style key = (case style key of None \<Rightarrow> Undefined | Some c \<Rightarrow> String c)"

text \<open>
  \<^verbatim>\<open>usePathname()\<close> of \<^verbatim>\<open>next/navigation\<close> reads the current pathname from the
  router. The router belongs to the host: its state is a type parameter \<open>'h\<close> and
  the hook is a function \<open>usePathname :: 'h \<Rightarrow> string\<close> handed to the component.
\<close>

section \<open>The component\<close>

record ActiveLinkProps =
  path :: string
  label :: string

text \<open>
  The element the component returns: \<^verbatim>\<open><Link className=... href=...>{label}</Link>\<close>.
\<close>

datatype jsx_element = Link (className: string) (href: string) (children: string)

text \<open>The comparison \<^verbatim>\<open>(pathName === path)\<close> of line 15.\<close>

definition isActive :: "string \<Rightarrow> string \<Rightarrow> bool" where
  "isActive pathName target = strict_equals (String pathName) (String target)"

text \<open>
  \<^verbatim>\<open>
  const ActiveLink = ({ path, label }: ActiveLinkProps) => {
   const pathName =  usePathname();
    return (
      <Link className={`${ style.link } ${ (pathName === path) && style['active-link']}`} href={path}>
        {label}
      </Link>
    );
  };
  \<close>
\<close>

definition ActiveLink ::
  "css_module \<Rightarrow> ('h \<Rightarrow> string) \<Rightarrow> 'h \<Rightarrow> ActiveLinkProps \<Rightarrow> jsx_element" where
  "ActiveLink style usePathname h props =
     (let pathName = usePathname h in
      Link (ToString (css_class style ''link'') @ '' '' @
            ToString (logical_and (Boolean (isActive pathName (path props)))
                                  (css_class style ''active-link'')))
           (path props)
           (label props))"



text \<open>
  Between two renders of a mounted instance React keeps the cells of the instance's
  state hooks (\<^verbatim>\<open>useState\<close>, \<^verbatim>\<open>useRef\<close>, \<^verbatim>\<open>useMemo\<close>); a render is given the cells and
  gives them back. The body of \<^verbatim>\<open>ActiveLink\<close> calls one hook, \<^verbatim>\<open>usePathname\<close>, which
  reads the router and owns no cell, so a render of \<^verbatim>\<open>ActiveLink\<close> returns the cells
  as it received them.
\<close>

definition render ::
  "css_module \<Rightarrow> ('h \<Rightarrow> string) \<Rightarrow> ActiveLinkProps \<Rightarrow> 'h \<Rightarrow> 'c \<Rightarrow> jsx_element \<times> 'c" where
  "render style usePathname props h cells = (ActiveLink style usePathname h props, cells)"

text \<open>
  The same instance rendered once at each router state of a list, in order; the
  cells left by one render are the cells given to the next.
\<close>

fun renders ::
  "css_module \<Rightarrow> ('h \<Rightarrow> string) \<Rightarrow> ActiveLinkProps \<Rightarrow> 'h list \<Rightarrow> 'c \<Rightarrow> jsx_element list" where
  "renders style usePathname props [] cells = []"
| "renders style usePathname props (h # hs) cells =
     (case render style usePathname props h cells of
        (el, cells') \<Rightarrow> el # renders style usePathname props hs cells')"

section \<open>Properties\<close>

lemma logical_and_true [simp]: "logical_and (Boolean True) v = v"
  by (simp add: logical_and_def)

lemma logical_and_false [simp]: "logical_and (Boolean False) v = Boolean False"
  by (simp add: logical_and_def)

lemma ActiveLink_href [simp]: "href (ActiveLink style usePathname h props) = path props"
  by (simp add: ActiveLink_def)

lemma ActiveLink_children [simp]: "children (ActiveLink style usePathname h props) = label props"
  by (simp add: ActiveLink_def)

lemma ActiveLink_className_active:
  "usePathname h = path props \<Longrightarrow>
   className (ActiveLink style usePathname h props) =
     ToString (css_class style ''link'') @ '' '' @ ToString (css_class style ''active-link'')"
  by (simp add: ActiveLink_def isActive_def)

lemma ActiveLink_className_inactive:
  "usePathname h \<noteq> path props \<Longrightarrow>
   className (ActiveLink style usePathname h props) =
     ToString (css_class style ''link'') @ '' false''"
  by (simp add: ActiveLink_def isActive_def)

lemma ActiveLink_closed_form:
  "ActiveLink style usePathname h props =
     Link (ToString (css_class style ''link'') @ '' '' @
           (if usePathname h = path props
            then ToString (css_class style ''active-link'') else ''false''))
          (path props) (label props)"
  by (simp add: ActiveLink_def isActive_def)

text \<open>
  C1. The active flag the component derives is exact string equality of the target
  and the current location, for every pair: a location that only extends the target,
  differs from it in case, or adds a trailing slash does not make the link active.
\<close>

theorem isActive_exact_equality:
  "isActive currentLocation target = (target = currentLocation)
   \<and> isActive ''/about/team'' ''/about'' = False
   \<and> isActive ''/About'' ''/about'' = False
   \<and> isActive ''/about/'' ''/about'' = False"
  by (auto simp add: isActive_def)

text \<open>
  C2, at the spec's own scenario: target \<^verbatim>\<open>/about\<close>, label \<^verbatim>\<open>About Page\<close>, current
  location \<^verbatim>\<open>/\<close>. The link is inactive, and its class attribute is the base class
  followed by the word \<^verbatim>\<open>false\<close>, not the base class alone.
\<close>

theorem ActiveLink_inactive_class_at_home:
  "className (ActiveLink [''link'' \<mapsto> ''ActiveLink_link__x'',
                          ''active-link'' \<mapsto> ''ActiveLink_active-link__y'']
                         id ''/''
                         \<lparr>path = ''/about'', label = ''About Page''\<rparr>)
     = ''ActiveLink_link__x false''
   \<and> className (ActiveLink [''link'' \<mapsto> ''ActiveLink_link__x'',
                            ''active-link'' \<mapsto> ''ActiveLink_active-link__y'']
                           id ''/''
                           \<lparr>path = ''/about'', label = ''About Page''\<rparr>)
     \<noteq> ''ActiveLink_link__x''"
  by (simp add: ActiveLink_def isActive_def css_class_def)



text \<open>
  C4. Render a mounted instance at any sequence of router states, starting from any
  contents of its hook cells. Each element of the sequence is the same explicit
  function of the CSS module, the target, the label and the pathname reported at
  that render: active class when the pathname is the target, \<^verbatim>\<open>false\<close> otherwise.
  Nothing of the cells or of an earlier router state enters it, so rendering again
  at an unchanged location repeats the element, and after a location change the
  flag is the comparison with the new location.
\<close>

theorem renders_show_current_location:
  "renders style usePathname props hs cells =
     map (\<lambda>h. Link (ToString (css_class style ''link'') @ '' '' @
                    (if usePathname h = path props
                     then ToString (css_class style ''active-link'') else ''false''))
                   (path props) (label props))
         hs"
proof (induction hs arbitrary: cells)
  case Nil
  show ?case by simp
next
  case (Cons h hs)
  have first: "render style usePathname props h cells
                 = (ActiveLink style usePathname h props, cells)"
    by (simp add: render_def)
  show ?case
    by (simp add: first Cons.IH ActiveLink_closed_form)
qed

text \<open>
  C5. Render the component at three router states in turn, of which only the second
  reports the target as the pathname: the active flags are false, true, false, and
  the class strings are the inactive, the active and again the inactive one.
\<close>

theorem ActiveLink_follows_location_changes:
  assumes "usePathname h0 \<noteq> path props"
    and "usePathname h1 = path props"
    and "usePathname h2 \<noteq> path props"
  shows "map (\<lambda>h. isActive (usePathname h) (path props)) [h0, h1, h2]
           = [False, True, False]
         \<and> map (\<lambda>h. className (ActiveLink style usePathname h props)) [h0, h1, h2]
           = [ToString (css_class style ''link'') @ '' false'',
              ToString (css_class style ''link'') @ '' '' @
                ToString (css_class style ''active-link''),
              ToString (css_class style ''link'') @ '' false'']"
proof -
  have flags: "isActive (usePathname h0) (path props) = False"
    "isActive (usePathname h1) (path props) = True"
    "isActive (usePathname h2) (path props) = False"
    using assms by (simp_all add: isActive_def)
  have classes:
    "className (ActiveLink style usePathname h0 props)
       = ToString (css_class style ''link'') @ '' false''"
    "className (ActiveLink style usePathname h1 props)
       = ToString (css_class style ''link'') @ '' '' @
         ToString (css_class style ''active-link'')"
    "className (ActiveLink style usePathname h2 props)
       = ToString (css_class style ''link'') @ '' false''"
    using assms
    by (simp_all add: ActiveLink_className_inactive ActiveLink_className_active)
  show ?thesis
    using flags classes by simp
qed

theorem ActiveLink_follows_location_changes_witness:
  "id ''/'' \<noteq> path \<lparr>path = ''/about'', label = ''About Page''\<rparr>
   \<and> id ''/about'' = path \<lparr>path = ''/about'', label = ''About Page''\<rparr>
   \<and> id ''/contact'' \<noteq> path \<lparr>path = ''/about'', label = ''About Page''\<rparr>
   \<and> map (\<lambda>h. isActive (id h) (path \<lparr>path = ''/about'', label = ''About Page''\<rparr>))
          [''/'', ''/about'', ''/contact'']
       = [False, True, False]
   \<and> map (\<lambda>h. className
                 (ActiveLink [''link'' \<mapsto> ''ActiveLink_link__x'',
                              ''active-link'' \<mapsto> ''ActiveLink_active-link__y'']
                             id h \<lparr>path = ''/about'', label = ''About Page''\<rparr>))
          [''/'', ''/about'', ''/contact'']
       = [''ActiveLink_link__x false'',
          ''ActiveLink_link__x ActiveLink_active-link__y'',
          ''ActiveLink_link__x false'']"
proof -
  have before: "id ''/'' \<noteq> path \<lparr>path = ''/about'', label = ''About Page''\<rparr>"
    by simp
  have at: "id ''/about'' = path \<lparr>path = ''/about'', label = ''About Page''\<rparr>"
    by simp
  have after: "id ''/contact'' \<noteq> path \<lparr>path = ''/about'', label = ''About Page''\<rparr>"
    by simp
  show ?thesis
    using before at after
      ActiveLink_follows_location_changes
        [where usePathname = id and ?h0.0 = "''/''" and ?h1.0 = "''/about''"
           and ?h2.0 = "''/contact''"
           and props = "\<lparr>path = ''/about'', label = ''About Page''\<rparr>"
           and style = "[''link'' \<mapsto> ''ActiveLink_link__x'',
                         ''active-link'' \<mapsto> ''ActiveLink_active-link__y'']"]
    by (simp add: css_class_def)
qed

text \<open>
  C6. Fix the CSS module, the target and the label, and render at any two router
  states: the second element is the first with at most its class string replaced;
  the \<^verbatim>\<open>href\<close> and the label text are the same in both.
\<close>

theorem ActiveLink_location_changes_class_only:
  "ActiveLink style usePathname h' props
     = Link (className (ActiveLink style usePathname h' props))
            (href (ActiveLink style usePathname h props))
            (children (ActiveLink style usePathname h props))
   \<and> href (ActiveLink style usePathname h' props)
       = href (ActiveLink style usePathname h props)
   \<and> children (ActiveLink style usePathname h' props)
       = children (ActiveLink style usePathname h props)"
  by (simp add: ActiveLink_def)



text \<open>
  C9. With the empty target the flag is true exactly when the current location is
  the empty string too: the empty target is not inactive everywhere, it is active
  there and nowhere else, and the class string follows the flag.
\<close>

theorem empty_target_active_iff_empty_location:
  assumes "path props = ''''"
  shows "isActive (usePathname h) (path props) = (usePathname h = '''')
         \<and> className (ActiveLink style usePathname h props)
             = ToString (css_class style ''link'') @ '' '' @
               (if usePathname h = ''''
                then ToString (css_class style ''active-link'') else ''false'')"
  using assms by (simp add: ActiveLink_closed_form isActive_def)

theorem empty_target_active_iff_empty_location_witness:
  "path \<lparr>path = '''', label = ''Home''\<rparr> = ''''
   \<and> isActive (id '''') (path \<lparr>path = '''', label = ''Home''\<rparr>) = True
   \<and> isActive (id ''/'') (path \<lparr>path = '''', label = ''Home''\<rparr>) = False
   \<and> className (ActiveLink [''link'' \<mapsto> ''ActiveLink_link__x'',
                             ''active-link'' \<mapsto> ''ActiveLink_active-link__y'']
                            id '''' \<lparr>path = '''', label = ''Home''\<rparr>)
       = ''ActiveLink_link__x ActiveLink_active-link__y''
   \<and> className (ActiveLink [''link'' \<mapsto> ''ActiveLink_link__x'',
                             ''active-link'' \<mapsto> ''ActiveLink_active-link__y'']
                            id ''/'' \<lparr>path = '''', label = ''Home''\<rparr>)
       = ''ActiveLink_link__x false''"
proof -
  have target: "path \<lparr>path = '''', label = ''Home''\<rparr> = ''''"
    by simp
  show ?thesis
    using target
      empty_target_active_iff_empty_location
        [where usePathname = id and h = "''''"
           and props = "\<lparr>path = '''', label = ''Home''\<rparr>"
           and style = "[''link'' \<mapsto> ''ActiveLink_link__x'',
                         ''active-link'' \<mapsto> ''ActiveLink_active-link__y'']"]
      empty_target_active_iff_empty_location
        [where usePathname = id and h = "''/''"
           and props = "\<lparr>path = '''', label = ''Home''\<rparr>"
           and style = "[''link'' \<mapsto> ''ActiveLink_link__x'',
                         ''active-link'' \<mapsto> ''ActiveLink_active-link__y'']"]
    by (simp add: css_class_def)
qed

text \<open>
  C10. Whenever the comparison is false, the class string is what the template
  literal writes for \<^verbatim>\<open>style.link\<close>, then a space, then the text \<^verbatim>\<open>false\<close>: the
  boolean left by \<^verbatim>\<open>&&\<close> is written into the string. When the CSS module exports
  \<^verbatim>\<open>link\<close> as the class \<open>base\<close>, the class string is \<open>base\<close> followed by \<^verbatim>\<open> false\<close>.
\<close>

theorem inactive_className_ends_in_false:
  assumes "isActive (usePathname h) (path props) = False"
  shows "className (ActiveLink style usePathname h props)
           = ToString (css_class style ''link'') @ '' false''
         \<and> (style ''link'' = Some base \<longrightarrow>
              className (ActiveLink style usePathname h props) = base @ '' false'')"
  using assms by (simp add: ActiveLink_def css_class_def)

theorem inactive_className_ends_in_false_witness:
  "isActive (id ''/'') (path \<lparr>path = ''/about'', label = ''About Page''\<rparr>) = False
   \<and> [''link'' \<mapsto> ''ActiveLink_link__x'',
       ''active-link'' \<mapsto> ''ActiveLink_active-link__y''] ''link''
       = Some ''ActiveLink_link__x''
   \<and> className (ActiveLink [''link'' \<mapsto> ''ActiveLink_link__x'',
                             ''active-link'' \<mapsto> ''ActiveLink_active-link__y'']
                            id ''/'' \<lparr>path = ''/about'', label = ''About Page''\<rparr>)
       = ''ActiveLink_link__x'' @ '' false''"
proof -
  have inactive:
    "isActive (id ''/'') (path \<lparr>path = ''/about'', label = ''About Page''\<rparr>) = False"
    by (simp add: isActive_def)
  have exported:
    "[''link'' \<mapsto> ''ActiveLink_link__x'',
      ''active-link'' \<mapsto> ''ActiveLink_active-link__y''] ''link''
       = Some ''ActiveLink_link__x''"
    by simp
  show ?thesis
    using inactive exported
      inactive_className_ends_in_false
        [where usePathname = id and h = "''/''"
           and props = "\<lparr>path = ''/about'', label = ''About Page''\<rparr>"
           and style = "[''link'' \<mapsto> ''ActiveLink_link__x'',
                         ''active-link'' \<mapsto> ''ActiveLink_active-link__y'']"
           and base = "''ActiveLink_link__x''"]
    by blast
qed

end
